theory Spec2Isabelle
  imports Main "HOL-Library.AList"
begin

section \<open>Package cmd of the agent: running an external command under a timeout\<close>

text \<open>
  The package (pct/cmd/cmd.go) wraps os/exec: \<open>NewRealCmd\<close> builds a command from a
  program name and arguments, \<open>Run\<close> adjusts the search path, detects a redirection
  argument, starts the program on a background task and waits for its result or for the
  timer.  The model below follows the source line by line.  Go strings are byte strings
  (\<open>string\<close>), a Go \<open>error\<close> is a \<open>go_error option\<close> with \<open>None\<close> for nil, and
  everything the operating system or the Go library decides (the executable's path, file
  creation, what the program prints, which case of the select is taken) is a field of a
  record \<open>world\<close> that the functions read.
\<close>

subsection \<open>Values\<close>

text \<open>time.Duration counts nanoseconds in a 64-bit integer; the only value computed is
  \<open>60 * time.Second\<close>, far from the bounds, so \<open>int\<close> serves.\<close>

type_synonym duration = int

definition Second :: duration where
  "Second = 1000000000"

text \<open>
  The error values the code distinguishes. The first three are the package's own
  (lines 34-38); \<open>exec_ErrNotFound\<close> is exec.ErrNotFound and \<open>exec_Error n e\<close> a value
  of type *exec.Error with fields Name and Err; the others stand for the errors the
  code only passes on (a non-zero exit status, a path error of os.Create, anything else).
\<close>

datatype go_error =
    ErrNotFound
  | ErrTimeout
  | ErrKillProcessAfterTimeout
  | exec_ErrNotFound
  | exec_Error string go_error
  | exec_ExitError int
  | os_PathError string string string
  | other_error string

text \<open>type RealCmd struct (lines 62-66) and type result struct (lines 68-71; its field
  output is \<open>result_output\<close> here).\<close>

record RealCmd =
  Timeout :: duration
  name :: string
  args :: "string list"

record result =
  result_output :: string
  err :: "go_error option"

text \<open>
  The fields of exec.Cmd that the code sets: Args holds the program name followed by the
  arguments, Env is nil (\<open>None\<close>: os/exec gives the process the parent's environment)
  or the list of KEY=value strings that os/exec is to give it (of two entries for one
  key os/exec keeps the later), Stdout is nil or the file created for the redirection. Path is the
  program name; exec.Command looks it up on the search path, and what comes of that
  shows in the result of running the command.
\<close>

record exec_Cmd =
  Path :: string
  Args :: "string list"
  Env :: "string list option"
  Stdout :: "string option"

definition exec_Command :: "string \<Rightarrow> string list \<Rightarrow> exec_Cmd" where
  "exec_Command nm as = \<lparr>Path = nm, Args = nm # as, Env = None, Stdout = None\<rparr>"

subsection \<open>The process environment\<close>

text \<open>
  The environment is an association list in the order of os.Environ. os.Getenv gives the
  empty string for a variable that is not set; os.Setenv replaces the value in place or
  appends the variable. (os.Setenv fails only for a value holding a NUL byte, which no
  environment string, executable path or argument-zero holds; the code ignores its result.)
\<close>

type_synonym environ = "(string \<times> string) list"

definition Getenv :: "environ \<Rightarrow> string \<Rightarrow> string" where
  "Getenv e k = (case map_of e k of None \<Rightarrow> [] | Some v \<Rightarrow> v)"

definition Setenv :: "string \<Rightarrow> string \<Rightarrow> environ \<Rightarrow> environ" where
  "Setenv k v e = AList.update k v e"

definition Environ :: "environ \<Rightarrow> string list" where
  "Environ e = map (\<lambda>(k, v). k @ ''='' @ v) e"

subsection \<open>The world outside the package\<close>

text \<open>
  When the timer fires, cmd.Process is either still nil (the background task has not
  started the program, or starting failed) or a process handle whose Kill returns an
  error or nil.
\<close>

datatype process_handle = NilProcess | Process "go_error option"

datatype select_case = TimerFires process_handle | ResultArrives

record world =
  Executable :: "string \<times> go_error option"
  os_Args :: "string list"
  ListSeparator :: char
  Dir :: "string \<Rightarrow> string"
  TrimSpace :: "string \<Rightarrow> string"
  Create :: "string \<Rightarrow> go_error option"
  CombinedOutput :: "exec_Cmd \<Rightarrow> environ \<Rightarrow> string \<times> go_error option"
  CmdRun :: "exec_Cmd \<Rightarrow> environ \<Rightarrow> go_error option"
  select :: "duration \<Rightarrow> select_case"

text \<open>
  \<open>Executable\<close> is the pair os.Executable() returns, \<open>os_Args\<close> is os.Args, \<open>Dir\<close> is
  path.Dir, \<open>TrimSpace\<close> is strings.TrimSpace, \<open>Create f\<close> is the error of os.Create(f),
  \<open>CombinedOutput cmd e\<close> and \<open>CmdRun cmd e\<close> are what cmd.CombinedOutput() and cmd.Run()
  return when the parent's environment is \<open>e\<close>, and \<open>select d\<close> tells which case of the
  select statement with a timer of duration \<open>d\<close> is taken.
\<close>

text \<open>What one call of Run does besides returning, in order.\<close>

datatype event =
    EvCreate string
  | EvClose string
  | EvGo exec_Cmd string environ
  | EvKill

datatype outcome = Return string "go_error option" | Panic

record run_result =
  ret :: outcome
  env_after :: environ
  events :: "event list"

subsection \<open>strings.HasPrefix and strings.TrimPrefix\<close>

definition HasPrefix :: "string \<Rightarrow> string \<Rightarrow> bool" where
  "HasPrefix s p = (length p \<le> length s \<and> take (length p) s = p)"

definition TrimPrefix :: "string \<Rightarrow> string \<Rightarrow> string" where
  "TrimPrefix s p = (if HasPrefix s p then drop (length p) s else s)"

subsection \<open>NewRealCmd and Make (lines 30-32, 58-60, 73-79)\<close>

text \<open>
  DefaultTimeout is a package variable and NewRealCmd returns a pointer to a new struct,
  so the package state is the variable and a heap of commands; a pointer is an index of
  the heap. \<open>set_Timeout\<close> is the assignment \<open>c.Timeout = d\<close> of a caller, through a
  pointer that NewRealCmd returned.
\<close>

record pkg =
  DefaultTimeout :: duration
  heap :: "RealCmd list"

definition pkg_init :: pkg where
  "pkg_init = \<lparr>DefaultTimeout = 60 * Second, heap = []\<rparr>"

definition NewRealCmd :: "string \<Rightarrow> string list \<Rightarrow> pkg \<Rightarrow> nat \<times> pkg" where
  "NewRealCmd nm as p =
     (length (heap p),
      p\<lparr>heap := heap p @ [\<lparr>Timeout = DefaultTimeout p, name = nm, args = as\<rparr>]\<rparr>)"

definition Make :: "string \<Rightarrow> string list \<Rightarrow> pkg \<Rightarrow> nat \<times> pkg" where
  "Make nm as p = NewRealCmd nm as p"

definition set_Timeout :: "nat \<Rightarrow> duration \<Rightarrow> pkg \<Rightarrow> pkg" where
  "set_Timeout a d p =
     (if a < length (heap p) then p\<lparr>heap := (heap p)[a := (heap p ! a)\<lparr>Timeout := d\<rparr>]\<rparr>
      else p)"

text \<open>The states the package reaches through its own operations.\<close>

inductive reachable :: "pkg \<Rightarrow> bool" where
  reach_init: "reachable pkg_init"
| reach_new: "reachable p \<Longrightarrow> reachable (snd (NewRealCmd nm as p))"
| reach_set: "reachable p \<Longrightarrow> a < length (heap p) \<Longrightarrow> reachable (set_Timeout a d p)"

subsection \<open>Run (lines 81-146) and runCmd (lines 148-168)\<close>

text \<open>Lines 88-94: the search path for the call. \<open>None\<close> is the panic of os.Args[0] on an
  empty os.Args.\<close>

definition set_search_path :: "world \<Rightarrow> string \<Rightarrow> environ \<Rightarrow> environ option" where
  "set_search_path w osPath e =
     (case Executable w of
        (binfile, Some x) \<Rightarrow>
          Some (Setenv ''PATH'' (Dir w binfile @ ''/bin/'' @ [ListSeparator w] @ osPath) e)
      | (binfile, None) \<Rightarrow>
          (case os_Args w of
             [] \<Rightarrow> None
           | a0 # _ \<Rightarrow> Some (Setenv ''PATH'' (Dir w a0 @ [ListSeparator w] @ osPath) e)))"

text \<open>Lines 99-109: the loop over c.args, with the slice \<open>args\<close> built so far; it gives
  the arguments kept and outFilename.\<close>

fun scan_args :: "(string \<Rightarrow> string) \<Rightarrow> string list \<Rightarrow> string list \<Rightarrow> string list \<times> string" where
  "scan_args trim acc [] = (acc, [])"
| "scan_args trim acc (arg # rest) =
     (if HasPrefix arg ''>'' then (acc, trim (TrimPrefix arg ''>''))
      else scan_args trim (acc @ [arg]) rest)"

text \<open>Lines 148-168: the result the background task sends when the program ends, and the
  start of the task.\<close>

definition runCmd :: "world \<Rightarrow> exec_Cmd \<Rightarrow> string \<Rightarrow> environ \<Rightarrow> result \<times> event list" where
  "runCmd w cmd redirectFile e =
     ((if redirectFile = [] then
         (case CombinedOutput w cmd e of (out, x) \<Rightarrow> \<lparr>result_output = out, err = x\<rparr>)
       else \<lparr>result_output = redirectFile, err = CmdRun w cmd e\<rparr>),
      [EvGo cmd redirectFile e])"

text \<open>Lines 140-141: the error is an *exec.Error whose Err is exec.ErrNotFound.\<close>

fun is_exec_not_found :: "go_error option \<Rightarrow> bool" where
  "is_exec_not_found (Some (exec_Error n x)) = (x = exec_ErrNotFound)"
| "is_exec_not_found _ = False"

text \<open>Lines 119-145: the HOME workaround, the start of the task and the select.\<close>

definition run_select :: "world \<Rightarrow> RealCmd \<Rightarrow> exec_Cmd \<Rightarrow> string \<Rightarrow> environ \<Rightarrow> run_result" where
  "run_select w c cmd0 outFilename e =
     (let cmd = (if Getenv e ''HOME'' = []
                 then cmd0\<lparr>Env := Some (Environ e @ [''HOME=/root''])\<rparr> else cmd0);
          (res, evs) = runCmd w cmd outFilename e
      in case select w (Timeout c) of
           TimerFires NilProcess \<Rightarrow> \<lparr>ret = Panic, env_after = e, events = evs\<rparr>
         | TimerFires (Process killErr) \<Rightarrow>
             (if killErr \<noteq> None
              then \<lparr>ret = Return [] (Some ErrKillProcessAfterTimeout), env_after = e,
                    events = evs @ [EvKill]\<rparr>
              else \<lparr>ret = Return [] (Some ErrTimeout), env_after = e,
                    events = evs @ [EvKill]\<rparr>)
         | ResultArrives \<Rightarrow>
             (if is_exec_not_found (err res)
              then \<lparr>ret = Return [] (Some ErrNotFound), env_after = e, events = evs\<rparr>
              else \<lparr>ret = Return (result_output res) (err res), env_after = e, events = evs\<rparr>))"

text \<open>Lines 88-145, the body of Run before its deferred calls: the deferred
  outfile.Close() is the event after the select.\<close>

definition run_body :: "world \<Rightarrow> RealCmd \<Rightarrow> string \<Rightarrow> environ \<Rightarrow> run_result" where
  "run_body w c osPath e0 =
     (case set_search_path w osPath e0 of
        None \<Rightarrow> \<lparr>ret = Panic, env_after = e0, events = []\<rparr>
      | Some e \<Rightarrow>
          (case scan_args (TrimSpace w) [] (args c) of
             (as, outFilename) \<Rightarrow>
               (let cmd = exec_Command (name c) as
                in if outFilename \<noteq> [] then
                     (case Create w outFilename of
                        Some x \<Rightarrow> \<lparr>ret = Return [] (Some x), env_after = e, events = []\<rparr>
                      | None \<Rightarrow>
                          (let r = run_select w c (cmd\<lparr>Stdout := Some outFilename\<rparr>) outFilename e
                           in r\<lparr>events := [EvCreate outFilename] @ events r @ [EvClose outFilename]\<rparr>))
                   else run_select w c cmd outFilename e)))"

text \<open>Lines 83-86: PATH is read first, and the deferred function sets it back last.\<close>

definition Run :: "world \<Rightarrow> RealCmd \<Rightarrow> environ \<Rightarrow> run_result" where
  "Run w c e0 =
     (let osPath = Getenv e0 ''PATH'';
          r = run_body w c osPath e0
      in r\<lparr>env_after := Setenv ''PATH'' osPath (env_after r)\<rparr>)"

subsection \<open>Concrete worlds and commands\<close>

text \<open>
  A world to evaluate the model in. Its \<open>trim_ascii\<close> removes the ASCII white space at
  both ends and its \<open>slash_dir\<close> cuts a path at its last slash; strings.TrimSpace and
  path.Dir give the same on the strings used below. The program echo prints its
  arguments, the program false exits with status 1, any other program is not found, only
  /tmp/out.txt can be created, and the timer wins for a timeout below one second.
\<close>

definition ascii_space :: "char \<Rightarrow> bool" where
  "ascii_space ch = (ch \<in> set [CHR 0x09, CHR 0x0A, CHR 0x0B, CHR 0x0C, CHR 0x0D, CHR '' ''])"

definition trim_ascii :: "string \<Rightarrow> string" where
  "trim_ascii s = rev (dropWhile ascii_space (rev (dropWhile ascii_space s)))"

definition slash_dir :: "string \<Rightarrow> string" where
  "slash_dir p =
     (let d = rev (dropWhile (\<lambda>ch. ch \<noteq> CHR ''/'') (rev p))
      in if d = [] then ''.'' else if d = ''/'' then ''/'' else butlast d)"

definition demo_world :: world where
  "demo_world =
     \<lparr>Executable = (''/usr/local/percona/qan-agent/bin/percona-qan-agent'', None),
      os_Args = [''./percona-qan-agent''],
      ListSeparator = CHR '':'',
      Dir = slash_dir,
      TrimSpace = trim_ascii,
      Create = (\<lambda>f. if f = ''/tmp/out.txt'' then None
                    else Some (os_PathError ''open'' f ''permission denied'')),
      CombinedOutput = (\<lambda>cmd e. if Path cmd = ''echo''
                    then (concat (tl (Args cmd)) @ [CHR 0x0A], None)
                    else if Path cmd = ''false'' then ([], Some (exec_ExitError 1))
                    else ([], Some (exec_Error (Path cmd) exec_ErrNotFound))),
      CmdRun = (\<lambda>cmd e. if Path cmd = ''echo'' then None
                    else if Path cmd = ''false'' then Some (exec_ExitError 1)
                    else Some (exec_Error (Path cmd) exec_ErrNotFound)),
      select = (\<lambda>d. if d < Second then TimerFires (Process None) else ResultArrives)\<rparr>"

text \<open>The same world when os.Executable fails, and when Kill fails.\<close>

definition unresolved_world :: world where
  "unresolved_world = demo_world\<lparr>Executable := ([], Some (other_error ''cannot find executable''))\<rparr>"

definition unkillable_world :: world where
  "unkillable_world =
     demo_world\<lparr>select := (\<lambda>d. TimerFires (Process (Some (other_error ''operation not permitted''))))\<rparr>"

text \<open>The same world when a timer of duration zero fires before the task has started
  the program, so that cmd.Process is still nil.\<close>

definition racy_world :: world where
  "racy_world =
     demo_world\<lparr>select := (\<lambda>d. if d \<le> 0 then TimerFires NilProcess else select demo_world d)\<rparr>"

definition demo_env :: environ where
  "demo_env = [(''PATH'', ''/usr/bin''), (''HOME'', ''/home/agent'')]"

definition bare_env :: environ where
  "bare_env = [(''PATH'', ''/usr/bin'')]"

definition nopath_env :: environ where
  "nopath_env = [(''HOME'', ''/home/agent'')]"

definition empty_home_env :: environ where
  "empty_home_env = [(''PATH'', ''/usr/bin''), (''HOME'', [])]"

definition echo_hello :: RealCmd where
  "echo_hello = \<lparr>Timeout = 60 * Second, name = ''echo'', args = [''hello'']\<rparr>"

definition echo_redirect :: RealCmd where
  "echo_redirect =
     \<lparr>Timeout = 60 * Second, name = ''echo'', args = [''hi'', ''> /tmp/out.txt'', ''dropped'']\<rparr>"

definition echo_denied :: RealCmd where
  "echo_denied = \<lparr>Timeout = 60 * Second, name = ''echo'', args = [''hi'', ''>/root/out.txt'']\<rparr>"

definition echo_blank :: RealCmd where
  "echo_blank = \<lparr>Timeout = 60 * Second, name = ''echo'', args = [''hi'', ''> '', ''dropped'']\<rparr>"

definition missing_cmd :: RealCmd where
  "missing_cmd = \<lparr>Timeout = 60 * Second, name = ''nonexistent-binary-xyz'', args = []\<rparr>"

definition false_cmd :: RealCmd where
  "false_cmd = \<lparr>Timeout = 60 * Second, name = ''false'', args = []\<rparr>"

definition sleep_cmd :: RealCmd where
  "sleep_cmd = \<lparr>Timeout = 100000000, name = ''sleep'', args = [''5'']\<rparr>"

definition hasty_cmd :: RealCmd where
  "hasty_cmd = \<lparr>Timeout = 0, name = ''sleep'', args = [''5'']\<rparr>"

section \<open>Properties\<close>

subsection \<open>The loop over the arguments\<close>

lemma scan_args_eq:
  "scan_args trim acc as =
     (acc @ takeWhile (\<lambda>a. \<not> HasPrefix a ''>'') as,
      (case dropWhile (\<lambda>a. \<not> HasPrefix a ''>'') as of
         [] \<Rightarrow> [] | a # _ \<Rightarrow> trim (TrimPrefix a ''>'')))"
  by (induction as arbitrary: acc) auto

lemma scan_args_none:
  assumes "\<forall>a\<in>set as. \<not> HasPrefix a ''>''"
  shows "scan_args trim [] as = (as, [])"
proof -
  have tw: "takeWhile (\<lambda>a. \<not> HasPrefix a ''>'') as = as"
    using assms by (simp add: takeWhile_eq_all_conv)
  have dw: "dropWhile (\<lambda>a. \<not> HasPrefix a ''>'') as = []"
    using assms by simp
  show ?thesis unfolding scan_args_eq tw dw by simp
qed

lemma scan_args_first:
  assumes i: "i < length as" and hit: "HasPrefix (as ! i) ''>''"
    and before: "\<forall>j<i. \<not> HasPrefix (as ! j) ''>''"
  shows "scan_args trim [] as = (take i as, trim (TrimPrefix (as ! i) ''>''))"
proof -
  let ?P = "\<lambda>a. \<not> HasPrefix a ''>''"
  have tw: "takeWhile ?P as = take i as"
    using before hit by (intro takeWhile_eq_take_P_nth) auto
  have "dropWhile ?P as = drop i as"
    using i by (simp add: dropWhile_eq_drop tw)
  also have "\<dots> = as ! i # drop (Suc i) as"
    using i by (simp add: Cons_nth_drop_Suc)
  finally show ?thesis
    by (simp add: scan_args_eq tw)
qed

subsection \<open>The select\<close>

lemma is_exec_not_found_iff:
  "is_exec_not_found x \<longleftrightarrow> (\<exists>n. x = Some (exec_Error n exec_ErrNotFound))"
  by (cases x rule: is_exec_not_found.cases) auto

lemma events_run_select:
  "events (run_select w c cmd0 dest e) =
     EvGo (if Getenv e ''HOME'' = [] then cmd0\<lparr>Env := Some (Environ e @ [''HOME=/root''])\<rparr>
           else cmd0) dest e
       # (case select w (Timeout c) of TimerFires (Process k) \<Rightarrow> [EvKill] | _ \<Rightarrow> [])"
  by (simp add: run_select_def runCmd_def Let_def
      split: select_case.splits process_handle.splits prod.splits)

lemma env_after_run_select: "env_after (run_select w c cmd0 dest e) = e"
  by (simp add: run_select_def runCmd_def Let_def
      split: select_case.splits process_handle.splits prod.splits)

lemma ret_run_select_timer:
  assumes "select w (Timeout c) = TimerFires (Process k)"
  shows "ret (run_select w c cmd0 dest e) =
           Return [] (Some (if k = None then ErrTimeout else ErrKillProcessAfterTimeout))"
  using assms by (simp add: run_select_def runCmd_def Let_def split: prod.splits)

lemma ret_run_select_nil:
  assumes "select w (Timeout c) = TimerFires NilProcess"
  shows "ret (run_select w c cmd0 dest e) = Panic"
  using assms by (simp add: run_select_def runCmd_def Let_def split: prod.splits)

lemma ret_run_select_result:
  assumes "select w (Timeout c) = ResultArrives"
    and "cmd = (if Getenv e ''HOME'' = [] then cmd0\<lparr>Env := Some (Environ e @ [''HOME=/root''])\<rparr>
                else cmd0)"
    and "res = fst (runCmd w cmd dest e)"
  shows "ret (run_select w c cmd0 dest e) =
           (if is_exec_not_found (err res) then Return [] (Some ErrNotFound)
            else Return (result_output res) (err res))"
  using assms by (simp add: run_select_def Let_def split: prod.splits)

subsection \<open>What a call of Run starts\<close>

lemma EvGo_in_Run:
  assumes "EvGo cmd rf e1 \<in> set (events (Run w c e))"
  shows "set_search_path w (Getenv e ''PATH'') e = Some e1"
    and "rf = snd (scan_args (TrimSpace w) [] (args c))"
    and "rf = [] \<or> Create w rf = None"
    and "cmd = (let cmd0 = (exec_Command (name c) (fst (scan_args (TrimSpace w) [] (args c))))
                             \<lparr>Stdout := (if rf = [] then None else Some rf)\<rparr>
                in if Getenv e1 ''HOME'' = []
                   then cmd0\<lparr>Env := Some (Environ e1 @ [''HOME=/root''])\<rparr> else cmd0)"
    and "ret (Run w c e) =
           ret (run_select w c ((exec_Command (name c) (fst (scan_args (TrimSpace w) [] (args c))))
                                  \<lparr>Stdout := (if rf = [] then None else Some rf)\<rparr>) rf e1)"
  using assms
  by (auto simp: Run_def run_body_def Let_def events_run_select exec_Command_def
      split: option.splits prod.splits if_splits)

lemma EvCreate_in_Run:
  assumes "EvCreate f \<in> set (events (Run w c e))"
  shows "f = snd (scan_args (TrimSpace w) [] (args c)) \<and> f \<noteq> []"
  using assms
  by (auto simp: Run_def run_body_def Let_def events_run_select
      split: option.splits prod.splits if_splits select_case.splits process_handle.splits)

lemma events_Run_started:
  assumes "set_search_path w (Getenv e ''PATH'') e = Some e1"
    and "scan_args (TrimSpace w) [] (args c) = (as, [])"
  shows "events (Run w c e) =
           EvGo (if Getenv e1 ''HOME'' = []
                 then (exec_Command (name c) as)\<lparr>Env := Some (Environ e1 @ [''HOME=/root''])\<rparr>
                 else exec_Command (name c) as) [] e1
             # (case select w (Timeout c) of TimerFires (Process k) \<Rightarrow> [EvKill] | _ \<Rightarrow> [])"
  using assms by (simp add: Run_def run_body_def Let_def events_run_select)

lemma Run_starts_task:
  "(\<exists>cmd rf e1. EvGo cmd rf e1 \<in> set (events (Run w c e))) \<longleftrightarrow>
     set_search_path w (Getenv e ''PATH'') e \<noteq> None \<and>
     (snd (scan_args (TrimSpace w) [] (args c)) = [] \<or>
      Create w (snd (scan_args (TrimSpace w) [] (args c))) = None)"
  by (auto simp: Run_def run_body_def Let_def events_run_select
      split: option.splits prod.splits if_splits)

lemma set_search_path_resolved:
  assumes "Executable w = (binfile, None)" and "os_Args w = a0 # rest"
  shows "set_search_path w p e = Some (Setenv ''PATH'' (Dir w a0 @ [ListSeparator w] @ p) e)"
  using assms by (simp add: set_search_path_def)

lemma set_search_path_unresolved:
  assumes "Executable w = (binfile, Some x)"
  shows "set_search_path w p e =
           Some (Setenv ''PATH'' (Dir w binfile @ ''/bin/'' @ [ListSeparator w] @ p) e)"
  using assms by (simp add: set_search_path_def)

lemma set_search_path_Some:
  assumes "os_Args w \<noteq> []"
  shows "\<exists>e1. set_search_path w p e = Some e1"
  using assms by (auto simp: set_search_path_def split: prod.splits option.splits list.splits)

lemma set_search_path_HOME:
  assumes "set_search_path w p e = Some e1"
  shows "map_of e1 ''HOME'' = map_of e ''HOME''" and "\<exists>v. e1 = Setenv ''PATH'' v e"
  using assms
  by (auto simp: set_search_path_def Setenv_def update_conv' split: prod.splits option.splits list.splits)

subsection \<open>The environment after Run\<close>

lemma env_after_run_body:
  "env_after (run_body w c p e) = e \<or> (\<exists>v. env_after (run_body w c p e) = Setenv ''PATH'' v e)"
  by (auto simp: run_body_def set_search_path_def Let_def env_after_run_select
      split: option.splits prod.splits list.splits)

lemma Setenv_restore:
  assumes "e' = e \<or> (\<exists>v. e' = Setenv ''PATH'' v e)"
  shows "Setenv ''PATH'' (Getenv e ''PATH'') e' =
           (case map_of e ''PATH'' of None \<Rightarrow> e @ [(''PATH'', [])] | Some v \<Rightarrow> e)"
proof -
  have "Setenv ''PATH'' (Getenv e ''PATH'') e' = Setenv ''PATH'' (Getenv e ''PATH'') e"
    using assms by (auto simp: Setenv_def)
  also have "\<dots> = (case map_of e ''PATH'' of None \<Rightarrow> e @ [(''PATH'', [])] | Some v \<Rightarrow> e)"
  proof (cases "map_of e ''PATH''")
    case None
    then have "''PATH'' \<notin> fst ` set e" by (simp add: map_of_eq_None_iff)
    then have "AList.update ''PATH'' [] e = e @ [(''PATH'', [])]"
      by (induction e) auto
    with None show ?thesis by (simp add: Setenv_def Getenv_def)
  next
    case (Some v)
    then show ?thesis by (simp add: Setenv_def Getenv_def update_triv)
  qed
  finally show ?thesis .
qed

lemma Run_env_after:
  "env_after (Run w c e) =
     (case map_of e ''PATH'' of None \<Rightarrow> e @ [(''PATH'', [])] | Some v \<Rightarrow> e)"
  using Setenv_restore [OF env_after_run_body] by (simp add: Run_def Let_def)

lemma map_of_env_after_Run:
  "map_of (env_after (Run w c e)) k =
     (if k = ''PATH'' then Some (Getenv e ''PATH'') else map_of e k)"
proof -
  have "env_after (Run w c e) =
          Setenv ''PATH'' (Getenv e ''PATH'') (env_after (run_body w c (Getenv e ''PATH'') e))"
    by (simp add: Run_def Let_def)
  then show ?thesis
    using env_after_run_body [of w c "Getenv e ''PATH''" e]
    by (auto simp: Setenv_def update_conv')
qed

subsection \<open>The package state\<close>

lemma reachable_DefaultTimeout:
  "reachable p \<Longrightarrow> DefaultTimeout p = 60000000000"
  by (induction rule: reachable.induct)
     (simp_all add: pkg_init_def Second_def NewRealCmd_def set_Timeout_def)

subsection \<open>Evaluating the model\<close>

lemmas model_defs = Run_def run_body_def set_search_path_def run_select_def runCmd_def
  exec_Command_def Getenv_def Setenv_def Environ_def HasPrefix_def TrimPrefix_def Second_def
  Let_def

lemmas demo_defs = demo_world_def unresolved_world_def unkillable_world_def racy_world_def
  demo_env_def bare_env_def nopath_env_def empty_home_env_def trim_ascii_def ascii_space_def
  slash_dir_def

lemma Run_echo_hello:
  "Run demo_world echo_hello demo_env =
     \<lparr>ret = Return (''hello'' @ [CHR 0x0A]) None, env_after = demo_env,
      events = [EvGo \<lparr>Path = ''echo'', Args = [''echo'', ''hello''], Env = None, Stdout = None\<rparr> []
                  [(''PATH'', ''.:/usr/bin''), (''HOME'', ''/home/agent'')]]\<rparr>"
  by (simp add: model_defs demo_defs echo_hello_def)

lemma Run_echo_hello_unresolved:
  "Run unresolved_world echo_hello demo_env =
     \<lparr>ret = Return (''hello'' @ [CHR 0x0A]) None, env_after = demo_env,
      events = [EvGo \<lparr>Path = ''echo'', Args = [''echo'', ''hello''], Env = None, Stdout = None\<rparr> []
                  [(''PATH'', ''./bin/:/usr/bin''), (''HOME'', ''/home/agent'')]]\<rparr>"
  by (simp add: model_defs demo_defs echo_hello_def)

lemma Run_echo_redirect:
  "Run demo_world echo_redirect bare_env =
     \<lparr>ret = Return ''/tmp/out.txt'' None, env_after = bare_env,
      events = [EvCreate ''/tmp/out.txt'',
                EvGo \<lparr>Path = ''echo'', Args = [''echo'', ''hi''],
                      Env = Some [''PATH=.:/usr/bin'', ''HOME=/root''],
                      Stdout = Some ''/tmp/out.txt''\<rparr> ''/tmp/out.txt'' [(''PATH'', ''.:/usr/bin'')],
                EvClose ''/tmp/out.txt'']\<rparr>"
  by (simp add: model_defs demo_defs echo_redirect_def)

lemma Run_echo_denied:
  "Run demo_world echo_denied demo_env =
     \<lparr>ret = Return [] (Some (os_PathError ''open'' ''/root/out.txt'' ''permission denied'')),
      env_after = demo_env, events = []\<rparr>"
  by (simp add: model_defs demo_defs echo_denied_def)

lemma Run_echo_blank:
  "Run demo_world echo_blank demo_env =
     \<lparr>ret = Return (''hi'' @ [CHR 0x0A]) None, env_after = demo_env,
      events = [EvGo \<lparr>Path = ''echo'', Args = [''echo'', ''hi''], Env = None, Stdout = None\<rparr> []
                  [(''PATH'', ''.:/usr/bin''), (''HOME'', ''/home/agent'')]]\<rparr>"
  by (simp add: model_defs demo_defs echo_blank_def)

lemma Run_missing_cmd:
  "Run demo_world missing_cmd demo_env =
     \<lparr>ret = Return [] (Some ErrNotFound), env_after = demo_env,
      events = [EvGo \<lparr>Path = ''nonexistent-binary-xyz'', Args = [''nonexistent-binary-xyz''],
                      Env = None, Stdout = None\<rparr> []
                  [(''PATH'', ''.:/usr/bin''), (''HOME'', ''/home/agent'')]]\<rparr>"
  by (simp add: model_defs demo_defs missing_cmd_def)

lemma Run_false_cmd:
  "Run demo_world false_cmd demo_env =
     \<lparr>ret = Return [] (Some (exec_ExitError 1)), env_after = demo_env,
      events = [EvGo \<lparr>Path = ''false'', Args = [''false''], Env = None, Stdout = None\<rparr> []
                  [(''PATH'', ''.:/usr/bin''), (''HOME'', ''/home/agent'')]]\<rparr>"
  by (simp add: model_defs demo_defs false_cmd_def)

lemma Run_hasty_cmd:
  "Run racy_world hasty_cmd demo_env =
     \<lparr>ret = Panic, env_after = demo_env,
      events = [EvGo \<lparr>Path = ''sleep'', Args = [''sleep'', ''5''], Env = None, Stdout = None\<rparr> []
                  [(''PATH'', ''.:/usr/bin''), (''HOME'', ''/home/agent'')]]\<rparr>"
  by (simp add: model_defs demo_defs hasty_cmd_def)

lemma Run_echo_hello_nopath:
  "Run demo_world echo_hello nopath_env =
     \<lparr>ret = Return (''hello'' @ [CHR 0x0A]) None,
      env_after = [(''HOME'', ''/home/agent''), (''PATH'', [])],
      events = [EvGo \<lparr>Path = ''echo'', Args = [''echo'', ''hello''], Env = None, Stdout = None\<rparr> []
                  [(''HOME'', ''/home/agent''), (''PATH'', ''.:'')]]\<rparr>"
  by (simp add: model_defs demo_defs echo_hello_def)

lemma Run_echo_hello_empty_home:
  "Run demo_world echo_hello empty_home_env =
     \<lparr>ret = Return (''hello'' @ [CHR 0x0A]) None, env_after = empty_home_env,
      events = [EvGo \<lparr>Path = ''echo'', Args = [''echo'', ''hello''],
                      Env = Some [''PATH=.:/usr/bin'', ''HOME='', ''HOME=/root''], Stdout = None\<rparr> []
                  [(''PATH'', ''.:/usr/bin''), (''HOME'', [])]]\<rparr>"
  by (simp add: model_defs demo_defs echo_hello_def)

lemma Run_sleep_cmd:
  "Run demo_world sleep_cmd demo_env =
     \<lparr>ret = Return [] (Some ErrTimeout), env_after = demo_env,
      events = [EvGo \<lparr>Path = ''sleep'', Args = [''sleep'', ''5''], Env = None, Stdout = None\<rparr> []
                  [(''PATH'', ''.:/usr/bin''), (''HOME'', ''/home/agent'')], EvKill]\<rparr>"
  by (simp add: model_defs demo_defs sleep_cmd_def)

lemma Run_sleep_cmd_unkillable:
  "Run unkillable_world sleep_cmd demo_env =
     \<lparr>ret = Return [] (Some ErrKillProcessAfterTimeout), env_after = demo_env,
      events = [EvGo \<lparr>Path = ''sleep'', Args = [''sleep'', ''5''], Env = None, Stdout = None\<rparr> []
                  [(''PATH'', ''.:/usr/bin''), (''HOME'', ''/home/agent'')], EvKill]\<rparr>"
  by (simp add: model_defs demo_defs sleep_cmd_def)

section \<open>The claims\<close>

text \<open>
  Claim C1 says that when the path of the running executable can be resolved, PATH is set
  for the call to the directory of that executable with /bin appended, put before the
  inherited PATH, and that the directory of argument-zero is used only when the path
  cannot be resolved. The code tests \<open>err != nil\<close> at line 88 and so does the reverse:
  with the executable resolved (first world) the program is started under
  PATH = dir(os.Args[0]) : PATH, here \<open>.:/usr/bin\<close> and not
  \<open>/usr/local/percona/qan-agent/bin/bin:/usr/bin\<close>; with the executable unresolved
  (second world) under PATH = dir(binfile)/bin/ : PATH for the empty binfile, here
  \<open>./bin/:/usr/bin\<close>, and os.Args[0] is not looked at.
\<close>

theorem Run_search_path_inverted:
  "Executable demo_world = (''/usr/local/percona/qan-agent/bin/percona-qan-agent'', None)
   \<and> os_Args demo_world = [''./percona-qan-agent'']
   \<and> Getenv demo_env ''PATH'' = ''/usr/bin''
   \<and> events (Run demo_world echo_hello demo_env) =
       [EvGo \<lparr>Path = ''echo'', Args = [''echo'', ''hello''], Env = None, Stdout = None\<rparr> []
          [(''PATH'', ''.:/usr/bin''), (''HOME'', ''/home/agent'')]]
   \<and> Dir demo_world (fst (Executable demo_world)) @ ''/bin'' @ [ListSeparator demo_world] @
         Getenv demo_env ''PATH'' = ''/usr/local/percona/qan-agent/bin/bin:/usr/bin''
   \<and> Executable unresolved_world = ([], Some (other_error ''cannot find executable''))
   \<and> os_Args unresolved_world = [''./percona-qan-agent'']
   \<and> events (Run unresolved_world echo_hello demo_env) =
       [EvGo \<lparr>Path = ''echo'', Args = [''echo'', ''hello''], Env = None, Stdout = None\<rparr> []
          [(''PATH'', ''./bin/:/usr/bin''), (''HOME'', ''/home/agent'')]]"
proof -
  have "Dir demo_world (fst (Executable demo_world)) @ ''/bin'' @ [ListSeparator demo_world] @
          Getenv demo_env ''PATH'' = ''/usr/local/percona/qan-agent/bin/bin:/usr/bin''"
    by (simp add: demo_world_def demo_env_def slash_dir_def Getenv_def)
  moreover have "Getenv demo_env ''PATH'' = ''/usr/bin''"
    by (simp add: demo_env_def Getenv_def)
  moreover have "Executable demo_world =
      (''/usr/local/percona/qan-agent/bin/percona-qan-agent'', None)"
    and "os_Args demo_world = [''./percona-qan-agent'']"
    and "Executable unresolved_world = ([], Some (other_error ''cannot find executable''))"
    and "os_Args unresolved_world = [''./percona-qan-agent'']"
    by (simp_all add: demo_world_def unresolved_world_def)
  ultimately show ?thesis
    by (simp add: Run_echo_hello Run_echo_hello_unresolved)
qed

text \<open>
  Claim C2: if no argument has the prefix \<open>>\<close>, the loop keeps the whole argument list
  and leaves outFilename empty, so no file is created and the program, when Run starts
  it, gets the original arguments, Stdout nil and an empty redirect name; if the first
  argument with the prefix is at position \<open>i\<close>, the loop keeps the arguments before
  \<open>i\<close>, which are what the program gets, and the destination is that argument without
  its leading \<open>>\<close>, trimmed.
\<close>

theorem Run_argument_split:
  "((\<forall>a\<in>set (args c). \<not> HasPrefix a ''>'') \<longrightarrow>
      scan_args (TrimSpace w) [] (args c) = (args c, []) \<and>
      (\<forall>f. EvCreate f \<notin> set (events (Run w c e))) \<and>
      (\<forall>cmd rf e1. EvGo cmd rf e1 \<in> set (events (Run w c e)) \<longrightarrow>
         Args cmd = name c # args c \<and> rf = [] \<and> Stdout cmd = None))
   \<and> (\<forall>i. i < length (args c) \<and> HasPrefix (args c ! i) ''>'' \<and>
            (\<forall>j<i. \<not> HasPrefix (args c ! j) ''>'') \<longrightarrow>
      scan_args (TrimSpace w) [] (args c) =
        (take i (args c), TrimSpace w (TrimPrefix (args c ! i) ''>'')) \<and>
      (\<forall>cmd rf e1. EvGo cmd rf e1 \<in> set (events (Run w c e)) \<longrightarrow>
         Args cmd = name c # take i (args c) \<and>
         rf = TrimSpace w (TrimPrefix (args c ! i) ''>'') \<and>
         Stdout cmd = (if rf = [] then None else Some rf)))"
proof (intro conjI impI allI)
  assume none: "\<forall>a\<in>set (args c). \<not> HasPrefix a ''>''"
  show sc: "scan_args (TrimSpace w) [] (args c) = (args c, [])"
    using none by (rule scan_args_none)
  show "EvCreate f \<notin> set (events (Run w c e))" for f
    using EvCreate_in_Run [of f w c e] by (auto simp: sc)
  fix cmd rf e1
  assume go: "EvGo cmd rf e1 \<in> set (events (Run w c e))"
  show rf: "rf = []"
    using EvGo_in_Run(2) [OF go] by (simp add: sc)
  show "Args cmd = name c # args c"
    using EvGo_in_Run(4) [OF go] by (simp add: sc Let_def exec_Command_def)
  show "Stdout cmd = None"
    using EvGo_in_Run(4) [OF go] rf by (simp add: sc Let_def exec_Command_def)
next
  fix i
  assume h: "i < length (args c) \<and> HasPrefix (args c ! i) ''>'' \<and>
             (\<forall>j<i. \<not> HasPrefix (args c ! j) ''>'')"
  show sc: "scan_args (TrimSpace w) [] (args c) =
              (take i (args c), TrimSpace w (TrimPrefix (args c ! i) ''>''))"
    using h by (intro scan_args_first) auto
  fix cmd rf e1
  assume go: "EvGo cmd rf e1 \<in> set (events (Run w c e))"
  show "rf = TrimSpace w (TrimPrefix (args c ! i) ''>'')"
    using EvGo_in_Run(2) [OF go] by (simp add: sc)
  show "Args cmd = name c # take i (args c)"
    using EvGo_in_Run(4) [OF go] by (simp add: sc Let_def exec_Command_def)
  show "Stdout cmd = (if rf = [] then None else Some rf)"
    using EvGo_in_Run(4) [OF go] by (simp add: sc Let_def exec_Command_def)
qed

theorem Run_argument_split_witness:
  "list_all (\<lambda>a. \<not> HasPrefix a ''>'') (args echo_hello)
   \<and> scan_args (TrimSpace demo_world) [] (args echo_hello) = ([''hello''], [])
   \<and> (\<forall>f. EvCreate f \<notin> set (events (Run demo_world echo_hello demo_env)))
   \<and> EvGo \<lparr>Path = ''echo'', Args = [''echo'', ''hello''], Env = None, Stdout = None\<rparr> []
        [(''PATH'', ''.:/usr/bin''), (''HOME'', ''/home/agent'')]
       \<in> set (events (Run demo_world echo_hello demo_env))
   \<and> [''echo'', ''hello''] = name echo_hello # args echo_hello
   \<and> 1 < length (args echo_redirect)
   \<and> HasPrefix (args echo_redirect ! 1) ''>''
   \<and> \<not> HasPrefix (args echo_redirect ! 0) ''>''
   \<and> scan_args (TrimSpace demo_world) [] (args echo_redirect) = ([''hi''], ''/tmp/out.txt'')
   \<and> EvGo \<lparr>Path = ''echo'', Args = [''echo'', ''hi''],
            Env = Some [''PATH=.:/usr/bin'', ''HOME=/root''], Stdout = Some ''/tmp/out.txt''\<rparr>
        ''/tmp/out.txt'' [(''PATH'', ''.:/usr/bin'')]
       \<in> set (events (Run demo_world echo_redirect bare_env))
   \<and> [''echo'', ''hi''] = name echo_redirect # take 1 (args echo_redirect)
   \<and> ''/tmp/out.txt'' = TrimSpace demo_world (TrimPrefix (args echo_redirect ! 1) ''>'')"
proof -
  let ?cmdA = "\<lparr>Path = ''echo'', Args = [''echo'', ''hello''], Env = None, Stdout = None\<rparr>"
  let ?eA = "[(''PATH'', ''.:/usr/bin''), (''HOME'', ''/home/agent'')]"
  let ?cmdB = "\<lparr>Path = ''echo'', Args = [''echo'', ''hi''],
                 Env = Some [''PATH=.:/usr/bin'', ''HOME=/root''], Stdout = Some ''/tmp/out.txt''\<rparr>"
  let ?eB = "[(''PATH'', ''.:/usr/bin'')]"
  have na: "\<forall>a\<in>set (args echo_hello). \<not> HasPrefix a ''>''"
    by (simp add: echo_hello_def HasPrefix_def)
  have a: "EvGo ?cmdA [] ?eA \<in> set (events (Run demo_world echo_hello demo_env))"
    by (simp add: Run_echo_hello)
  note A = Run_argument_split [of echo_hello demo_world demo_env, THEN conjunct1, THEN mp, OF na]
  have A1: "scan_args (TrimSpace demo_world) [] (args echo_hello) = ([''hello''], [])"
    using A by (simp add: echo_hello_def)
  have A2: "\<forall>f. EvCreate f \<notin> set (events (Run demo_world echo_hello demo_env))"
    using A by (elim conjE)
  have A3: "Args ?cmdA = name echo_hello # args echo_hello"
    using A [THEN conjunct2, THEN conjunct2, rule_format, OF a] by (elim conjE)
  have hb: "1 < length (args echo_redirect) \<and> HasPrefix (args echo_redirect ! 1) ''>'' \<and>
            (\<forall>j<1. \<not> HasPrefix (args echo_redirect ! j) ''>'')"
    by (simp add: echo_redirect_def HasPrefix_def)
  have b: "EvGo ?cmdB ''/tmp/out.txt'' ?eB \<in> set (events (Run demo_world echo_redirect bare_env))"
    by (simp add: Run_echo_redirect)
  note B = Run_argument_split [of echo_redirect demo_world bare_env, THEN conjunct2, THEN spec, THEN mp, OF hb]
  have B3: "Args ?cmdB = name echo_redirect # take 1 (args echo_redirect) \<and>
            ''/tmp/out.txt'' = TrimSpace demo_world (TrimPrefix (args echo_redirect ! 1) ''>'')"
    using B [THEN conjunct2, rule_format, OF b] by (elim conjE) (rule conjI)
  have t: "TrimSpace demo_world (TrimPrefix (args echo_redirect ! 1) ''>'') = ''/tmp/out.txt''"
    by (simp add: echo_redirect_def demo_defs TrimPrefix_def HasPrefix_def)
  have k: "take 1 (args echo_redirect) = [''hi'']"
    by (simp add: echo_redirect_def)
  have B1: "scan_args (TrimSpace demo_world) [] (args echo_redirect) = ([''hi''], ''/tmp/out.txt'')"
    using B [THEN conjunct1] unfolding t k .
  show ?thesis
    using na A1 A2 a A3 hb B1 b B3 by (simp add: list_all_iff)
qed

text \<open>
  Claim C3 says that whenever the timer fires first, Run returns the empty string with
  ErrTimeout if Kill succeeds and the empty string with ErrKillProcessAfterTimeout if
  Kill fails, these being the two timeout branches. So it is when cmd.Process is set.
  But line 127 calls cmd.Process.Kill() with no test for nil, and cmd.Process is set only
  by the background task, when it has started the program: when the timer fires before
  that (a timeout of zero; a program that cannot be started, with both cases of the
  select ready), Run panics and returns neither.
\<close>

theorem Run_timer_fires:
  assumes "EvGo cmd rf e1 \<in> set (events (Run w c e))"
    and "select w (Timeout c) = TimerFires h"
  shows "(h = Process None \<longrightarrow> ret (Run w c e) = Return [] (Some ErrTimeout))
       \<and> (\<forall>x. h = Process (Some x) \<longrightarrow>
              ret (Run w c e) = Return [] (Some ErrKillProcessAfterTimeout))
       \<and> (h = NilProcess \<longrightarrow> ret (Run w c e) = Panic)"
proof (intro conjI impI allI)
  assume "h = Process None"
  then show "ret (Run w c e) = Return [] (Some ErrTimeout)"
    using EvGo_in_Run(5) [OF assms(1)] ret_run_select_timer [of w c None] assms(2) by simp
next
  fix x assume "h = Process (Some x)"
  then show "ret (Run w c e) = Return [] (Some ErrKillProcessAfterTimeout)"
    using EvGo_in_Run(5) [OF assms(1)] ret_run_select_timer [of w c "Some x"] assms(2) by simp
next
  assume "h = NilProcess"
  then show "ret (Run w c e) = Panic"
    using EvGo_in_Run(5) [OF assms(1)] ret_run_select_nil [of w c] assms(2) by simp
qed

theorem Run_timer_fires_witness:
  "EvGo \<lparr>Path = ''sleep'', Args = [''sleep'', ''5''], Env = None, Stdout = None\<rparr> []
      [(''PATH'', ''.:/usr/bin''), (''HOME'', ''/home/agent'')]
     \<in> set (events (Run racy_world hasty_cmd demo_env))
   \<and> select racy_world (Timeout hasty_cmd) = TimerFires NilProcess
   \<and> ret (Run racy_world hasty_cmd demo_env) = Panic
   \<and> ret (Run racy_world hasty_cmd demo_env) \<noteq> Return [] (Some ErrTimeout)
   \<and> ret (Run racy_world hasty_cmd demo_env) \<noteq> Return [] (Some ErrKillProcessAfterTimeout)
   \<and> EvGo \<lparr>Path = ''sleep'', Args = [''sleep'', ''5''], Env = None, Stdout = None\<rparr> []
      [(''PATH'', ''.:/usr/bin''), (''HOME'', ''/home/agent'')]
     \<in> set (events (Run demo_world sleep_cmd demo_env))
   \<and> select demo_world (Timeout sleep_cmd) = TimerFires (Process None)
   \<and> ret (Run demo_world sleep_cmd demo_env) = Return [] (Some ErrTimeout)
   \<and> EvGo \<lparr>Path = ''sleep'', Args = [''sleep'', ''5''], Env = None, Stdout = None\<rparr> []
      [(''PATH'', ''.:/usr/bin''), (''HOME'', ''/home/agent'')]
     \<in> set (events (Run unkillable_world sleep_cmd demo_env))
   \<and> select unkillable_world (Timeout sleep_cmd) =
       TimerFires (Process (Some (other_error ''operation not permitted'')))
   \<and> ret (Run unkillable_world sleep_cmd demo_env) = Return [] (Some ErrKillProcessAfterTimeout)"
proof -
  let ?cmd = "\<lparr>Path = ''sleep'', Args = [''sleep'', ''5''], Env = None, Stdout = None\<rparr>"
  let ?e1 = "[(''PATH'', ''.:/usr/bin''), (''HOME'', ''/home/agent'')]"
  have n: "EvGo ?cmd [] ?e1 \<in> set (events (Run racy_world hasty_cmd demo_env))"
    by (simp add: Run_hasty_cmd)
  have sn: "select racy_world (Timeout hasty_cmd) = TimerFires NilProcess"
    by (simp add: racy_world_def demo_world_def hasty_cmd_def)
  have N: "ret (Run racy_world hasty_cmd demo_env) = Panic"
    using Run_timer_fires [OF n sn] by simp
  have a: "EvGo ?cmd [] ?e1 \<in> set (events (Run demo_world sleep_cmd demo_env))"
    by (simp add: Run_sleep_cmd)
  have sa: "select demo_world (Timeout sleep_cmd) = TimerFires (Process None)"
    by (simp add: demo_world_def sleep_cmd_def Second_def)
  have A: "ret (Run demo_world sleep_cmd demo_env) = Return [] (Some ErrTimeout)"
    using Run_timer_fires [OF a sa] by simp
  have b: "EvGo ?cmd [] ?e1 \<in> set (events (Run unkillable_world sleep_cmd demo_env))"
    by (simp add: Run_sleep_cmd_unkillable)
  have sb: "select unkillable_world (Timeout sleep_cmd) =
              TimerFires (Process (Some (other_error ''operation not permitted'')))"
    by (simp add: unkillable_world_def)
  have B: "ret (Run unkillable_world sleep_cmd demo_env) =
             Return [] (Some ErrKillProcessAfterTimeout)"
    using Run_timer_fires [OF b sb] by simp
  show ?thesis
    using n sn N a sa A b sb B by simp
qed

text \<open>
  Claim C4: when the result of the task arrives first, Run returns the empty string and
  ErrNotFound if the result's error is an *exec.Error whose Err is exec.ErrNotFound, and
  returns the result's output and error unchanged in every other case (a nil error and a
  non-zero exit among them).
\<close>

theorem Run_result_arrives:
  assumes "EvGo cmd rf e1 \<in> set (events (Run w c e))"
    and "select w (Timeout c) = ResultArrives"
  shows "((\<exists>n. err (fst (runCmd w cmd rf e1)) = Some (exec_Error n exec_ErrNotFound)) \<longrightarrow>
            ret (Run w c e) = Return [] (Some ErrNotFound))
       \<and> ((\<forall>n. err (fst (runCmd w cmd rf e1)) \<noteq> Some (exec_Error n exec_ErrNotFound)) \<longrightarrow>
            ret (Run w c e) =
              Return (result_output (fst (runCmd w cmd rf e1))) (err (fst (runCmd w cmd rf e1))))"
proof -
  have "ret (Run w c e) =
          (if is_exec_not_found (err (fst (runCmd w cmd rf e1))) then Return [] (Some ErrNotFound)
           else Return (result_output (fst (runCmd w cmd rf e1))) (err (fst (runCmd w cmd rf e1))))"
    using EvGo_in_Run(4,5) [OF assms(1)] ret_run_select_result [OF assms(2) _ refl]
    by (simp add: Let_def)
  then show ?thesis
    by (simp add: is_exec_not_found_iff)
qed

theorem Run_result_arrives_witness:
  "EvGo \<lparr>Path = ''nonexistent-binary-xyz'', Args = [''nonexistent-binary-xyz''], Env = None,
          Stdout = None\<rparr> [] [(''PATH'', ''.:/usr/bin''), (''HOME'', ''/home/agent'')]
     \<in> set (events (Run demo_world missing_cmd demo_env))
   \<and> select demo_world (Timeout missing_cmd) = ResultArrives
   \<and> err (fst (runCmd demo_world
        \<lparr>Path = ''nonexistent-binary-xyz'', Args = [''nonexistent-binary-xyz''], Env = None,
          Stdout = None\<rparr> [] [(''PATH'', ''.:/usr/bin''), (''HOME'', ''/home/agent'')]))
       = Some (exec_Error ''nonexistent-binary-xyz'' exec_ErrNotFound)
   \<and> ret (Run demo_world missing_cmd demo_env) = Return [] (Some ErrNotFound)
   \<and> EvGo \<lparr>Path = ''false'', Args = [''false''], Env = None, Stdout = None\<rparr> []
        [(''PATH'', ''.:/usr/bin''), (''HOME'', ''/home/agent'')]
     \<in> set (events (Run demo_world false_cmd demo_env))
   \<and> select demo_world (Timeout false_cmd) = ResultArrives
   \<and> fst (runCmd demo_world \<lparr>Path = ''false'', Args = [''false''], Env = None, Stdout = None\<rparr> []
        [(''PATH'', ''.:/usr/bin''), (''HOME'', ''/home/agent'')])
       = \<lparr>result_output = [], err = Some (exec_ExitError 1)\<rparr>
   \<and> ret (Run demo_world false_cmd demo_env) = Return [] (Some (exec_ExitError 1))
   \<and> EvGo \<lparr>Path = ''echo'', Args = [''echo'', ''hello''], Env = None, Stdout = None\<rparr> []
        [(''PATH'', ''.:/usr/bin''), (''HOME'', ''/home/agent'')]
     \<in> set (events (Run demo_world echo_hello demo_env))
   \<and> select demo_world (Timeout echo_hello) = ResultArrives
   \<and> fst (runCmd demo_world \<lparr>Path = ''echo'', Args = [''echo'', ''hello''], Env = None, Stdout = None\<rparr> []
        [(''PATH'', ''.:/usr/bin''), (''HOME'', ''/home/agent'')])
       = \<lparr>result_output = ''hello'' @ [CHR 0x0A], err = None\<rparr>
   \<and> ret (Run demo_world echo_hello demo_env) = Return (''hello'' @ [CHR 0x0A]) None"
proof -
  let ?e1 = "[(''PATH'', ''.:/usr/bin''), (''HOME'', ''/home/agent'')]"
  let ?cmdM = "\<lparr>Path = ''nonexistent-binary-xyz'', Args = [''nonexistent-binary-xyz''],
                 Env = None, Stdout = None\<rparr>"
  let ?cmdF = "\<lparr>Path = ''false'', Args = [''false''], Env = None, Stdout = None\<rparr>"
  let ?cmdH = "\<lparr>Path = ''echo'', Args = [''echo'', ''hello''], Env = None, Stdout = None\<rparr>"
  have m: "EvGo ?cmdM [] ?e1 \<in> set (events (Run demo_world missing_cmd demo_env))"
    by (simp add: Run_missing_cmd)
  have sm: "select demo_world (Timeout missing_cmd) = ResultArrives"
    by (simp add: demo_world_def missing_cmd_def Second_def)
  have rm: "fst (runCmd demo_world ?cmdM [] ?e1) =
              \<lparr>result_output = [], err = Some (exec_Error ''nonexistent-binary-xyz'' exec_ErrNotFound)\<rparr>"
    by (simp add: runCmd_def demo_world_def)
  have M: "ret (Run demo_world missing_cmd demo_env) = Return [] (Some ErrNotFound)"
    using Run_result_arrives [OF m sm] rm by simp
  have f: "EvGo ?cmdF [] ?e1 \<in> set (events (Run demo_world false_cmd demo_env))"
    by (simp add: Run_false_cmd)
  have sf: "select demo_world (Timeout false_cmd) = ResultArrives"
    by (simp add: demo_world_def false_cmd_def Second_def)
  have rf: "fst (runCmd demo_world ?cmdF [] ?e1) = \<lparr>result_output = [], err = Some (exec_ExitError 1)\<rparr>"
    by (simp add: runCmd_def demo_world_def)
  have F: "ret (Run demo_world false_cmd demo_env) = Return [] (Some (exec_ExitError 1))"
    using Run_result_arrives [OF f sf] rf by simp
  have h: "EvGo ?cmdH [] ?e1 \<in> set (events (Run demo_world echo_hello demo_env))"
    by (simp add: Run_echo_hello)
  have sh: "select demo_world (Timeout echo_hello) = ResultArrives"
    by (simp add: demo_world_def echo_hello_def Second_def)
  have rh: "fst (runCmd demo_world ?cmdH [] ?e1) = \<lparr>result_output = ''hello'' @ [CHR 0x0A], err = None\<rparr>"
    by (simp add: runCmd_def demo_world_def)
  have H: "ret (Run demo_world echo_hello demo_env) = Return (''hello'' @ [CHR 0x0A]) None"
    using Run_result_arrives [OF h sh] rh by simp
  show ?thesis
    using m sm rm M f sf rf F h sh rh H by simp
qed

text \<open>
  Claim C5: when a redirection is requested (the destination is not empty) and os.Create
  fails, Run returns the empty string and the error of os.Create, and nothing has
  happened: no file, no task, no process, no Kill.
\<close>

theorem Run_create_fails:
  assumes "os_Args w \<noteq> []"
    and "scan_args (TrimSpace w) [] (args c) = (as, dest)" and "dest \<noteq> []"
    and "Create w dest = Some x"
  shows "ret (Run w c e) = Return [] (Some x) \<and> events (Run w c e) = []"
proof -
  obtain e1 where "set_search_path w (Getenv e ''PATH'') e = Some e1"
    using set_search_path_Some [OF assms(1)] by blast
  then show ?thesis
    using assms(2-4) by (simp add: Run_def run_body_def Let_def)
qed

theorem Run_create_fails_witness:
  "os_Args demo_world \<noteq> []
   \<and> scan_args (TrimSpace demo_world) [] (args echo_denied) = ([''hi''], ''/root/out.txt'')
   \<and> ''/root/out.txt'' \<noteq> []
   \<and> Create demo_world ''/root/out.txt'' =
       Some (os_PathError ''open'' ''/root/out.txt'' ''permission denied'')
   \<and> ret (Run demo_world echo_denied demo_env) =
       Return [] (Some (os_PathError ''open'' ''/root/out.txt'' ''permission denied''))
   \<and> events (Run demo_world echo_denied demo_env) = []"
proof -
  have a: "os_Args demo_world \<noteq> []"
    by (simp add: demo_world_def)
  have s: "scan_args (TrimSpace demo_world) [] (args echo_denied) = ([''hi''], ''/root/out.txt'')"
    by (simp add: demo_defs echo_denied_def HasPrefix_def TrimPrefix_def)
  have n: "''/root/out.txt'' \<noteq> []"
    by simp
  have c: "Create demo_world ''/root/out.txt'' =
             Some (os_PathError ''open'' ''/root/out.txt'' ''permission denied'')"
    by (simp add: demo_world_def)
  show ?thesis
    using a s n c Run_create_fails [OF a s n c, of demo_env] by simp
qed

text \<open>
  Claim C6 says that after Run, on every path through it, PATH has exactly the value it
  had when Run was entered. Not so for a PATH that is not set on entry: Run reads it
  with os.Getenv as the empty string, and its deferred os.Setenv leaves PATH set, to the
  empty string. What holds on every path (a result, not found, a failed os.Create, a
  timeout with or without a successful Kill, and a panic as well): os.Getenv reads PATH
  after Run as it did on entry; the environment after Run is the one of entry when PATH
  was set, and the one of entry followed by an empty PATH when it was not.
\<close>

theorem Run_restores_PATH:
  "Getenv (env_after (Run w c e)) ''PATH'' = Getenv e ''PATH''
   \<and> env_after (Run w c e) =
       (case map_of e ''PATH'' of None \<Rightarrow> e @ [(''PATH'', [])] | Some v \<Rightarrow> e)"
proof
  show "Getenv (env_after (Run w c e)) ''PATH'' = Getenv e ''PATH''"
    by (simp add: Getenv_def [of "env_after (Run w c e)"] map_of_env_after_Run)
  show "env_after (Run w c e) =
          (case map_of e ''PATH'' of None \<Rightarrow> e @ [(''PATH'', [])] | Some v \<Rightarrow> e)"
    by (rule Run_env_after)
qed

theorem Run_unset_PATH_counterexample:
  "map_of nopath_env ''PATH'' = None
   \<and> map_of (env_after (Run demo_world echo_hello nopath_env)) ''PATH'' = Some []
   \<and> env_after (Run demo_world echo_hello nopath_env) \<noteq> nopath_env"
proof -
  have "env_after (Run demo_world echo_hello nopath_env) = [(''HOME'', ''/home/agent''), (''PATH'', [])]"
    by (simp add: Run_echo_hello_nopath)
  then show ?thesis
    by (simp add: nopath_env_def)
qed

text \<open>
  Claim C7: the result the task of a call of Run sends has, with a redirection (a
  destination that is not empty after trimming), the destination path as its output and
  the error of cmd.Run() as its error; without a redirection its output is the combined
  output of the program. With a redirection, when the result arrives first and the
  program was found, Run returns that path and that error.
\<close>

theorem Run_task_result:
  assumes "EvGo cmd rf e1 \<in> set (events (Run w c e))"
  shows "rf = snd (scan_args (TrimSpace w) [] (args c))
       \<and> (rf \<noteq> [] \<longrightarrow>
            fst (runCmd w cmd rf e1) = \<lparr>result_output = rf, err = CmdRun w cmd e1\<rparr>)
       \<and> (rf = [] \<longrightarrow>
            fst (runCmd w cmd rf e1) =
              \<lparr>result_output = fst (CombinedOutput w cmd e1), err = snd (CombinedOutput w cmd e1)\<rparr>)
       \<and> (select w (Timeout c) = ResultArrives \<and> rf \<noteq> [] \<and>
            (\<forall>n. CmdRun w cmd e1 \<noteq> Some (exec_Error n exec_ErrNotFound)) \<longrightarrow>
            ret (Run w c e) = Return rf (CmdRun w cmd e1))"
proof (intro conjI impI)
  show "rf = snd (scan_args (TrimSpace w) [] (args c))"
    using EvGo_in_Run(2) [OF assms] .
  show "fst (runCmd w cmd rf e1) = \<lparr>result_output = rf, err = CmdRun w cmd e1\<rparr>" if "rf \<noteq> []"
    using that by (simp add: runCmd_def)
  show "fst (runCmd w cmd rf e1) =
          \<lparr>result_output = fst (CombinedOutput w cmd e1), err = snd (CombinedOutput w cmd e1)\<rparr>"
    if "rf = []"
    using that by (simp add: runCmd_def split: prod.splits)
  show "ret (Run w c e) = Return rf (CmdRun w cmd e1)"
    if h: "select w (Timeout c) = ResultArrives \<and> rf \<noteq> [] \<and>
           (\<forall>n. CmdRun w cmd e1 \<noteq> Some (exec_Error n exec_ErrNotFound))"
  proof -
    have "ret (Run w c e) =
            (if is_exec_not_found (err (fst (runCmd w cmd rf e1))) then Return [] (Some ErrNotFound)
             else Return (result_output (fst (runCmd w cmd rf e1))) (err (fst (runCmd w cmd rf e1))))"
      using EvGo_in_Run(4,5) [OF assms] h ret_run_select_result [OF _ _ refl]
      by (simp add: Let_def)
    with h show ?thesis
      by (simp add: runCmd_def is_exec_not_found_iff)
  qed
qed

theorem Run_task_result_witness:
  "EvGo \<lparr>Path = ''echo'', Args = [''echo'', ''hi''],
          Env = Some [''PATH=.:/usr/bin'', ''HOME=/root''], Stdout = Some ''/tmp/out.txt''\<rparr>
      ''/tmp/out.txt'' [(''PATH'', ''.:/usr/bin'')]
     \<in> set (events (Run demo_world echo_redirect bare_env))
   \<and> ''/tmp/out.txt'' = snd (scan_args (TrimSpace demo_world) [] (args echo_redirect))
   \<and> fst (runCmd demo_world
        \<lparr>Path = ''echo'', Args = [''echo'', ''hi''],
          Env = Some [''PATH=.:/usr/bin'', ''HOME=/root''], Stdout = Some ''/tmp/out.txt''\<rparr>
        ''/tmp/out.txt'' [(''PATH'', ''.:/usr/bin'')])
       = \<lparr>result_output = ''/tmp/out.txt'', err = None\<rparr>
   \<and> select demo_world (Timeout echo_redirect) = ResultArrives
   \<and> ret (Run demo_world echo_redirect bare_env) = Return ''/tmp/out.txt'' None
   \<and> EvGo \<lparr>Path = ''echo'', Args = [''echo'', ''hello''], Env = None, Stdout = None\<rparr> []
        [(''PATH'', ''.:/usr/bin''), (''HOME'', ''/home/agent'')]
     \<in> set (events (Run demo_world echo_hello demo_env))
   \<and> fst (runCmd demo_world \<lparr>Path = ''echo'', Args = [''echo'', ''hello''], Env = None, Stdout = None\<rparr> []
        [(''PATH'', ''.:/usr/bin''), (''HOME'', ''/home/agent'')])
       = \<lparr>result_output = ''hello'' @ [CHR 0x0A], err = None\<rparr>"
proof -
  let ?cmdR = "\<lparr>Path = ''echo'', Args = [''echo'', ''hi''],
                 Env = Some [''PATH=.:/usr/bin'', ''HOME=/root''], Stdout = Some ''/tmp/out.txt''\<rparr>"
  let ?eR = "[(''PATH'', ''.:/usr/bin'')]"
  let ?cmdH = "\<lparr>Path = ''echo'', Args = [''echo'', ''hello''], Env = None, Stdout = None\<rparr>"
  let ?eH = "[(''PATH'', ''.:/usr/bin''), (''HOME'', ''/home/agent'')]"
  have r: "EvGo ?cmdR ''/tmp/out.txt'' ?eR \<in> set (events (Run demo_world echo_redirect bare_env))"
    by (simp add: Run_echo_redirect)
  have cr: "CmdRun demo_world ?cmdR ?eR = None"
    by (simp add: demo_world_def)
  have sr: "select demo_world (Timeout echo_redirect) = ResultArrives"
    by (simp add: demo_world_def echo_redirect_def Second_def)
  note R = Run_task_result [OF r]
  have R1: "''/tmp/out.txt'' = snd (scan_args (TrimSpace demo_world) [] (args echo_redirect))"
    using R by blast
  have "fst (runCmd demo_world ?cmdR ''/tmp/out.txt'' ?eR) =
          \<lparr>result_output = ''/tmp/out.txt'', err = CmdRun demo_world ?cmdR ?eR\<rparr>"
    using R by blast
  then have R2: "fst (runCmd demo_world ?cmdR ''/tmp/out.txt'' ?eR) =
              \<lparr>result_output = ''/tmp/out.txt'', err = None\<rparr>"
    by (simp only: cr)
  have nf: "\<forall>n. CmdRun demo_world ?cmdR ?eR \<noteq> Some (exec_Error n exec_ErrNotFound)"
    by (simp add: cr)
  have "ret (Run demo_world echo_redirect bare_env) =
          Return ''/tmp/out.txt'' (CmdRun demo_world ?cmdR ?eR)"
    using R sr nf by blast
  then have R3: "ret (Run demo_world echo_redirect bare_env) = Return ''/tmp/out.txt'' None"
    by (simp only: cr)
  have h: "EvGo ?cmdH [] ?eH \<in> set (events (Run demo_world echo_hello demo_env))"
    by (simp add: Run_echo_hello)
  have ch: "CombinedOutput demo_world ?cmdH ?eH = (''hello'' @ [CHR 0x0A], None)"
    by (simp add: demo_world_def)
  have H: "fst (runCmd demo_world ?cmdH [] ?eH) = \<lparr>result_output = ''hello'' @ [CHR 0x0A], err = None\<rparr>"
    using Run_task_result [OF h] ch by simp
  show ?thesis
    using r R1 R2 sr R3 h H by simp
qed

text \<open>
  Claim C8: when HOME is unset or empty on entry, the environment that Run sets for the
  program (cmd.Env, line 121) is the parent's whole environment of that moment (the
  inherited one with PATH set for the call) followed by HOME=/root, and HOME of the
  parent stays as it was, unset or empty, during and after the call; when HOME is not
  empty, cmd.Env stays nil, so that the program inherits the parent's environment as it
  is. (Where the parent has an empty HOME, cmd.Env holds that entry and HOME=/root after
  it, and os/exec keeps the later of the two.)
\<close>

theorem Run_home_fallback:
  assumes "EvGo cmd rf e1 \<in> set (events (Run w c e))"
  shows "(Getenv e ''HOME'' = [] \<longrightarrow> Env cmd = Some (Environ e1 @ [''HOME=/root'']))
       \<and> (Getenv e ''HOME'' \<noteq> [] \<longrightarrow> Env cmd = None)
       \<and> (\<exists>v. e1 = Setenv ''PATH'' v e)
       \<and> map_of e1 ''HOME'' = map_of e ''HOME''
       \<and> map_of (env_after (Run w c e)) ''HOME'' = map_of e ''HOME''"
proof -
  note sp = EvGo_in_Run(1) [OF assms]
  have home: "map_of e1 ''HOME'' = map_of e ''HOME''"
    using set_search_path_HOME(1) [OF sp] .
  then have g: "Getenv e1 ''HOME'' = Getenv e ''HOME''"
    by (simp add: Getenv_def)
  have after: "map_of (env_after (Run w c e)) ''HOME'' = map_of e ''HOME''"
    by (simp add: map_of_env_after_Run)
  show ?thesis
    using EvGo_in_Run(4) [OF assms] set_search_path_HOME(2) [OF sp] home after
    by (simp add: g Let_def exec_Command_def)
qed

theorem Run_home_fallback_witness:
  "EvGo \<lparr>Path = ''echo'', Args = [''echo'', ''hi''],
          Env = Some [''PATH=.:/usr/bin'', ''HOME=/root''], Stdout = Some ''/tmp/out.txt''\<rparr>
      ''/tmp/out.txt'' [(''PATH'', ''.:/usr/bin'')]
     \<in> set (events (Run demo_world echo_redirect bare_env))
   \<and> map_of bare_env ''HOME'' = None
   \<and> Getenv bare_env ''HOME'' = []
   \<and> Some [''PATH=.:/usr/bin'', ''HOME=/root'']
       = Some (Environ [(''PATH'', ''.:/usr/bin'')] @ [''HOME=/root''])
   \<and> map_of (env_after (Run demo_world echo_redirect bare_env)) ''HOME'' = None
   \<and> EvGo \<lparr>Path = ''echo'', Args = [''echo'', ''hello''],
            Env = Some [''PATH=.:/usr/bin'', ''HOME='', ''HOME=/root''], Stdout = None\<rparr> []
        [(''PATH'', ''.:/usr/bin''), (''HOME'', [])]
     \<in> set (events (Run demo_world echo_hello empty_home_env))
   \<and> map_of empty_home_env ''HOME'' = Some []
   \<and> Getenv empty_home_env ''HOME'' = []
   \<and> Some [''PATH=.:/usr/bin'', ''HOME='', ''HOME=/root'']
       = Some (Environ [(''PATH'', ''.:/usr/bin''), (''HOME'', [])] @ [''HOME=/root''])
   \<and> map_of (env_after (Run demo_world echo_hello empty_home_env)) ''HOME'' = Some []
   \<and> EvGo \<lparr>Path = ''echo'', Args = [''echo'', ''hello''], Env = None, Stdout = None\<rparr> []
        [(''PATH'', ''.:/usr/bin''), (''HOME'', ''/home/agent'')]
     \<in> set (events (Run demo_world echo_hello demo_env))
   \<and> Getenv demo_env ''HOME'' = ''/home/agent''
   \<and> map_of (env_after (Run demo_world echo_hello demo_env)) ''HOME'' = Some ''/home/agent''"
proof -
  let ?cmdR = "\<lparr>Path = ''echo'', Args = [''echo'', ''hi''],
                 Env = Some [''PATH=.:/usr/bin'', ''HOME=/root''], Stdout = Some ''/tmp/out.txt''\<rparr>"
  let ?eR = "[(''PATH'', ''.:/usr/bin'')]"
  let ?cmdE = "\<lparr>Path = ''echo'', Args = [''echo'', ''hello''],
                 Env = Some [''PATH=.:/usr/bin'', ''HOME='', ''HOME=/root''], Stdout = None\<rparr>"
  let ?eE = "[(''PATH'', ''.:/usr/bin''), (''HOME'', [])]"
  let ?cmdH = "\<lparr>Path = ''echo'', Args = [''echo'', ''hello''], Env = None, Stdout = None\<rparr>"
  let ?eH = "[(''PATH'', ''.:/usr/bin''), (''HOME'', ''/home/agent'')]"
  have r: "EvGo ?cmdR ''/tmp/out.txt'' ?eR \<in> set (events (Run demo_world echo_redirect bare_env))"
    by (simp add: Run_echo_redirect)
  have gr: "Getenv bare_env ''HOME'' = []" and mr: "map_of bare_env ''HOME'' = None"
    by (simp_all add: bare_env_def Getenv_def)
  have R: "Env ?cmdR = Some (Environ ?eR @ [''HOME=/root'']) \<and>
           map_of (env_after (Run demo_world echo_redirect bare_env)) ''HOME'' = None"
    using Run_home_fallback [OF r] gr mr by simp
  have x: "EvGo ?cmdE [] ?eE \<in> set (events (Run demo_world echo_hello empty_home_env))"
    by (simp add: Run_echo_hello_empty_home)
  have gx: "Getenv empty_home_env ''HOME'' = []" and mx: "map_of empty_home_env ''HOME'' = Some []"
    by (simp_all add: empty_home_env_def Getenv_def)
  have X: "Env ?cmdE = Some (Environ ?eE @ [''HOME=/root'']) \<and>
           map_of (env_after (Run demo_world echo_hello empty_home_env)) ''HOME'' = Some []"
    using Run_home_fallback [OF x] gx mx by simp
  have h: "EvGo ?cmdH [] ?eH \<in> set (events (Run demo_world echo_hello demo_env))"
    by (simp add: Run_echo_hello)
  have gh: "Getenv demo_env ''HOME'' = ''/home/agent''"
    and mh: "map_of demo_env ''HOME'' = Some ''/home/agent''"
    by (simp_all add: demo_env_def Getenv_def)
  have H: "map_of (env_after (Run demo_world echo_hello demo_env)) ''HOME'' = Some ''/home/agent''"
    using Run_home_fallback [OF h] mh by simp
  show ?thesis
    using r mr gr R x mx gx X h gh H by simp
qed

text \<open>
  Claim C9: in every state the package reaches, Make is NewRealCmd and the command it
  builds has a timeout of 60 seconds (60000000000 ns); assigning the Timeout field of
  that command changes that command only: every other command on the heap is as before,
  DefaultTimeout is still 60 seconds, and so is the timeout of a command made afterwards.
\<close>

theorem NewRealCmd_default_timeout:
  assumes "reachable p" and "Make nm as p = (a, p1)"
  shows "Make nm as p = NewRealCmd nm as p
       \<and> a < length (heap p1) \<and> a = length (heap p)
       \<and> heap p1 ! a = \<lparr>Timeout = 60000000000, name = nm, args = as\<rparr>
       \<and> Timeout (heap (set_Timeout a d p1) ! a) = d
       \<and> (\<forall>b. b \<noteq> a \<longrightarrow> heap (set_Timeout a d p1) ! b = heap p1 ! b)
       \<and> DefaultTimeout (set_Timeout a d p1) = 60000000000
       \<and> Timeout (heap (snd (Make nm' as' (set_Timeout a d p1))) ! fst (Make nm' as' (set_Timeout a d p1)))
           = 60000000000"
proof -
  have dt: "DefaultTimeout p = 60000000000"
    using assms(1) by (rule reachable_DefaultTimeout)
  have a: "a = length (heap p)" and p1: "p1 = p\<lparr>heap := heap p @ [\<lparr>Timeout = 60000000000, name = nm, args = as\<rparr>]\<rparr>"
    using assms(2) dt by (auto simp: Make_def NewRealCmd_def)
  have r1: "reachable p1"
    using reach_new [OF assms(1), of nm as] assms(2) by (simp add: Make_def)
  have "reachable (set_Timeout a d p1)"
    using r1 by (rule reach_set) (simp add: a p1)
  then have dt2: "DefaultTimeout (set_Timeout a d p1) = 60000000000"
    by (rule reachable_DefaultTimeout)
  show ?thesis
    using dt2 by (simp add: a p1 Make_def NewRealCmd_def set_Timeout_def nth_append)
qed

theorem NewRealCmd_default_timeout_witness:
  "reachable pkg_init
   \<and> Make ''echo'' [''hello''] pkg_init =
       (0, \<lparr>DefaultTimeout = 60000000000,
            heap = [\<lparr>Timeout = 60000000000, name = ''echo'', args = [''hello'']\<rparr>]\<rparr>)
   \<and> heap (set_Timeout 0 100000000 (snd (Make ''echo'' [''hello''] pkg_init))) ! 0 =
       \<lparr>Timeout = 100000000, name = ''echo'', args = [''hello'']\<rparr>
   \<and> DefaultTimeout (set_Timeout 0 100000000 (snd (Make ''echo'' [''hello''] pkg_init))) = 60000000000
   \<and> Timeout (heap (snd (Make ''sleep'' [''5'']
         (set_Timeout 0 100000000 (snd (Make ''echo'' [''hello''] pkg_init))))) !
       fst (Make ''sleep'' [''5''] (set_Timeout 0 100000000 (snd (Make ''echo'' [''hello''] pkg_init)))))
       = 60000000000"
proof -
  let ?p1 = "\<lparr>DefaultTimeout = 60000000000,
               heap = [\<lparr>Timeout = 60000000000, name = ''echo'', args = [''hello'']\<rparr>]\<rparr>"
  have r: "reachable pkg_init"
    by (rule reach_init)
  have m: "Make ''echo'' [''hello''] pkg_init = (0, ?p1)"
    by (simp add: Make_def NewRealCmd_def pkg_init_def Second_def)
  note T = NewRealCmd_default_timeout [OF r m, of 100000000 "''sleep''" "[''5'']"]
  have "heap (set_Timeout 0 100000000 ?p1) ! 0 =
          \<lparr>Timeout = 100000000, name = ''echo'', args = [''hello'']\<rparr>"
    by (simp add: set_Timeout_def)
  then show ?thesis
    using r m T by simp
qed

text \<open>
  Claim C10: when the first argument with the prefix \<open>>\<close> trims to the empty string,
  Run creates no file and starts the program with Stdout nil and an empty redirect name,
  so the task's result is the combined output, which Run returns when the result arrives
  first and the program was found; yet the arguments passed are only those before that
  argument.
\<close>

theorem Run_blank_redirect:
  assumes "os_Args w \<noteq> []"
    and "i < length (args c)" and "HasPrefix (args c ! i) ''>''"
    and "\<forall>j<i. \<not> HasPrefix (args c ! j) ''>''"
    and "TrimSpace w (TrimPrefix (args c ! i) ''>'') = []"
  shows "\<exists>cmd e1.
           events (Run w c e) =
             EvGo cmd [] e1 # (case select w (Timeout c) of TimerFires (Process k) \<Rightarrow> [EvKill] | _ \<Rightarrow> [])
         \<and> Args cmd = name c # take i (args c) \<and> Stdout cmd = None
         \<and> fst (runCmd w cmd [] e1) =
             \<lparr>result_output = fst (CombinedOutput w cmd e1), err = snd (CombinedOutput w cmd e1)\<rparr>
         \<and> (select w (Timeout c) = ResultArrives \<and>
              (\<forall>n. snd (CombinedOutput w cmd e1) \<noteq> Some (exec_Error n exec_ErrNotFound)) \<longrightarrow>
              ret (Run w c e) = Return (fst (CombinedOutput w cmd e1)) (snd (CombinedOutput w cmd e1)))"
proof -
  obtain e1 where sp: "set_search_path w (Getenv e ''PATH'') e = Some e1"
    using set_search_path_Some [OF assms(1)] by blast
  have sc: "scan_args (TrimSpace w) [] (args c) = (take i (args c), [])"
    using scan_args_first [OF assms(2-4), of "TrimSpace w"] assms(5) by simp
  define cmd where "cmd = (if Getenv e1 ''HOME'' = []
      then (exec_Command (name c) (take i (args c)))\<lparr>Env := Some (Environ e1 @ [''HOME=/root''])\<rparr>
      else exec_Command (name c) (take i (args c)))"
  have ev: "events (Run w c e) =
      EvGo cmd [] e1 # (case select w (Timeout c) of TimerFires (Process k) \<Rightarrow> [EvKill] | _ \<Rightarrow> [])"
    unfolding cmd_def by (rule events_Run_started [OF sp sc])
  then have go: "EvGo cmd [] e1 \<in> set (events (Run w c e))"
    by simp
  have res: "fst (runCmd w cmd [] e1) =
      \<lparr>result_output = fst (CombinedOutput w cmd e1), err = snd (CombinedOutput w cmd e1)\<rparr>"
    by (simp add: runCmd_def split: prod.splits)
  have "ret (Run w c e) = Return (fst (CombinedOutput w cmd e1)) (snd (CombinedOutput w cmd e1))"
    if h: "select w (Timeout c) = ResultArrives \<and>
           (\<forall>n. snd (CombinedOutput w cmd e1) \<noteq> Some (exec_Error n exec_ErrNotFound))"
  proof -
    have "ret (Run w c e) =
            (if is_exec_not_found (err (fst (runCmd w cmd [] e1))) then Return [] (Some ErrNotFound)
             else Return (result_output (fst (runCmd w cmd [] e1))) (err (fst (runCmd w cmd [] e1))))"
      using EvGo_in_Run(4,5) [OF go] h ret_run_select_result [OF _ _ refl]
      by (simp add: Let_def)
    with h show ?thesis
      by (simp add: res is_exec_not_found_iff)
  qed
  moreover have "Args cmd = name c # take i (args c)" "Stdout cmd = None"
    by (simp_all add: cmd_def exec_Command_def)
  ultimately show ?thesis
    using ev res by blast
qed

theorem Run_blank_redirect_witness:
  "os_Args demo_world \<noteq> []
   \<and> 1 < length (args echo_blank)
   \<and> HasPrefix (args echo_blank ! 1) ''>''
   \<and> \<not> HasPrefix (args echo_blank ! 0) ''>''
   \<and> TrimSpace demo_world (TrimPrefix (args echo_blank ! 1) ''>'') = []
   \<and> (\<exists>cmd e1. events (Run demo_world echo_blank demo_env) = [EvGo cmd [] e1]
        \<and> Args cmd = [''echo'', ''hi''] \<and> Stdout cmd = None)
   \<and> ret (Run demo_world echo_blank demo_env) = Return (''hi'' @ [CHR 0x0A]) None"
proof -
  have a: "os_Args demo_world \<noteq> []"
    by (simp add: demo_world_def)
  have i: "1 < length (args echo_blank)" and p: "HasPrefix (args echo_blank ! 1) ''>''"
    and b: "\<forall>j<1. \<not> HasPrefix (args echo_blank ! j) ''>''"
    and t: "TrimSpace demo_world (TrimPrefix (args echo_blank ! 1) ''>'') = []"
    by (simp_all add: echo_blank_def HasPrefix_def TrimPrefix_def demo_defs)
  have s: "select demo_world (Timeout echo_blank) = ResultArrives"
    by (simp add: demo_world_def echo_blank_def Second_def)
  from Run_blank_redirect [OF a i p b t, of demo_env]
  obtain cmd e1 where
    ev: "events (Run demo_world echo_blank demo_env) =
           EvGo cmd [] e1 # (case select demo_world (Timeout echo_blank) of
                              TimerFires (Process k) \<Rightarrow> [EvKill] | _ \<Rightarrow> [])"
    and ar: "Args cmd = name echo_blank # take 1 (args echo_blank)" and st: "Stdout cmd = None"
    and rt: "select demo_world (Timeout echo_blank) = ResultArrives \<and>
             (\<forall>n. snd (CombinedOutput demo_world cmd e1) \<noteq> Some (exec_Error n exec_ErrNotFound)) \<longrightarrow>
             ret (Run demo_world echo_blank demo_env) =
               Return (fst (CombinedOutput demo_world cmd e1)) (snd (CombinedOutput demo_world cmd e1))"
    by blast
  have ev1: "events (Run demo_world echo_blank demo_env) = [EvGo cmd [] e1]"
    using ev s by simp
  then have "Path cmd = ''echo''"
    by (auto simp: Run_echo_blank)
  then have co: "CombinedOutput demo_world cmd e1 = (''hi'' @ [CHR 0x0A], None)"
    using ar by (simp add: demo_world_def echo_blank_def)
  have r: "ret (Run demo_world echo_blank demo_env) = Return (''hi'' @ [CHR 0x0A]) None"
    using rt s co by simp
  have "\<exists>cmd e1. events (Run demo_world echo_blank demo_env) = [EvGo cmd [] e1]
        \<and> Args cmd = [''echo'', ''hi''] \<and> Stdout cmd = None"
    using ev1 ar st by (simp add: echo_blank_def)
  then show ?thesis
    using a i p b t r by simp
qed

end
